theory Spec2Isabelle
  imports Complex_Main "HOL-Library.Sublist"
begin

section \<open>Data model (src/agent/types.ts, schema.sql)\<close>

text \<open>
  Numbers of the source are IEEE doubles. The model keeps counters, percentages that
  are rendered with a template literal, scores and timestamps as \<open>int\<close>, and the
  remaining measurements as exact rationals. Comparisons against the constants of the
  source are exact in both; the rounding of double arithmetic inside sums and quotients
  is not modelled. For the composite score the two agree: every sub-score is a multiple
  of 5 in 0..100, and on all of those the double computation rounds to the same integer.
\<close>

datatype Severity = CRITICAL | HIGH | MEDIUM | LOW

text \<open>
  \<open>RedFlag.category\<close> is one of five literals, but \<open>matchScamPatterns\<close> stores
  the \<open>pattern_type\<close> column of a registry row there unchecked (the schema names
  'BEHAVIOR' and 'SOCIAL' as values), hence the last constructor.
\<close>

datatype Category = CONTRACT | TOKENOMICS | TEAM | COMMUNITY | LIQUIDITY
  | OtherCategory string

datatype Recommendation = AVOID | HIGH_RISK | MODERATE_RISK | LOW_RISK | SAFE

record RedFlag =
  severity :: Severity
  category :: Category
  description :: string
  evidence :: "string option"

record ProjectData =
  pd_id :: string
  pd_contractAddress :: string
  pd_name :: string
  pd_symbol :: "string option"
  pd_chain :: string
  pd_discoveredAt :: int
  pd_description :: "string option"
  pd_category :: "string option"
  pd_website :: "string option"
  pd_twitter :: "string option"
  pd_telegram :: "string option"
  pd_discord :: "string option"
  pd_whitepaper :: "string option"
  pd_github :: "string option"

record ContractAnalysis =
  verified :: bool
  isProxy :: bool
  hasHoneypot :: bool
  hasMintFunction :: bool
  hasPauseFunction :: bool
  hasBlacklist :: bool
  hasWhitelist :: bool
  buyTax :: int
  sellTax :: int
  ownershipRenounced :: bool
  maxWalletLimit :: "int option"
  maxTxLimit :: "int option"
  lpLocked :: bool
  lpLockDuration :: "int option"
  creatorAddress :: string
  creationTimestamp :: int

record Holder =
  h_address :: string
  h_balance :: string
  percentage :: rat

record TokenomicsAnalysis =
  totalSupply :: string
  circulatingSupply :: string
  topHolders :: "Holder list"
  holderCount :: int
  lpPairAddress :: "string option"
  lpTokens :: "string option"
  marketCap :: rat
  fullyDilutedValue :: rat

record TeamMember =
  m_name :: string
  m_role :: string
  m_linkedin :: "string option"
  m_twitter :: "string option"
  m_background :: "string option"

record TeamAnalysis =
  isDoxxed :: bool
  members :: "TeamMember list option"
  previousProjects :: "string list option"
  scamHistory :: bool

record CommunityAnalysis =
  twitterFollowers :: int
  twitterEngagement :: rat
  telegramMembers :: int
  discordMembers :: int
  holderGrowthRate :: rat
  sentimentScore :: rat
  botActivity :: int

text \<open>
  A row of table \<open>scam_patterns\<close>, with the \<open>indicators\<close> column (a JSON array of
  strings) already parsed and \<open>severity\<close> one of the four values the schema documents.
\<close>

record ScamPattern =
  pattern_type :: Category
  p_description :: string
  indicators :: "string list"
  p_severity :: Severity

record RiskScore =
  overall :: int
  contractSafety :: int
  tokenomics :: int
  teamCredibility :: int
  communityHealth :: int
  liquidityRisk :: int
  redFlags :: "RedFlag list"
  warnings :: "string list"
  recommendation :: Recommendation
  analysisTimestamp :: int

text \<open>What the awaited registry query can reject with.\<close>

datatype error = StorageUnavailable string

section \<open>Rendering numbers and joining strings (JavaScript built-ins)\<close>

fun digits :: "nat \<Rightarrow> string" where
  "digits n = (if n < 10 then [''0123456789'' ! n]
               else digits (n div 10) @ [''0123456789'' ! (n mod 10)])"

text \<open>Template-literal rendering of an integral number.\<close>

definition numToString :: "int \<Rightarrow> string" where
  "numToString i = (if i < 0 then ''-'' @ digits (nat (- i)) else digits (nat i))"

text \<open>\<open>Number.prototype.toFixed(2)\<close>: nearest hundredth, ties to the larger magnitude.\<close>

definition toFixed2 :: "rat \<Rightarrow> string" where
  "toFixed2 x =
     (let n = nat \<lfloor>\<bar>x\<bar> * 100 + 1 / 2\<rfloor>
      in (if x < 0 then ''-'' else '''') @ digits (n div 100) @ ''.''
         @ digits (n mod 100 div 10) @ digits (n mod 10))"

text \<open>\<open>Math.round\<close>: nearest integer, ties towards plus infinity.\<close>

definition mathRound :: "rat \<Rightarrow> int" where
  "mathRound x = \<lfloor>x + 1 / 2\<rfloor>"

text \<open>\<open>Array.prototype.join\<close> on strings.\<close>

fun join :: "string \<Rightarrow> string list \<Rightarrow> string" where
  "join sep [] = []"
| "join sep [x] = x"
| "join sep (x # y # ys) = x @ sep @ join sep (y # ys)"

section \<open>ContractScanner (contract-scanner.ts)\<close>

record SourceInfo =
  sourceCode :: string
  abi :: string
  contractName :: string
  compilerVersion :: string
  optimizationUsed :: string
  isVerified :: bool

record CreationInfo =
  creator :: string
  txHash :: string
  timestamp :: int

text \<open>
  The detectors built on regular expressions, and \<open>String.prototype.toLowerCase\<close>,
  are taken as parameters: the regular-expression engine is not modelled.
\<close>

record RegexDetectors =
  toLowerCase :: "string \<Rightarrow> string"
  detectMintFunction :: "string \<Rightarrow> bool"
  detectPauseFunction :: "string \<Rightarrow> bool"
  detectHoneypot :: "string \<Rightarrow> bool"
  detectTaxes :: "string \<Rightarrow> int \<times> int"
  detectOwnershipRenounced :: "string \<Rightarrow> bool"

definition str_includes :: "string \<Rightarrow> string \<Rightarrow> bool" where
  "str_includes s sub = sublist sub s"

definition detectProxyPattern :: "string \<Rightarrow> bool" where
  "detectProxyPattern src =
     list_ex (\<lambda>indicator. str_includes src indicator)
       [''delegatecall'', ''upgradeable'', ''proxy'', ''implementation'', ''eip1967'']"

definition detectBlacklist :: "string \<Rightarrow> bool" where
  "detectBlacklist src =
     list_ex (\<lambda>indicator. str_includes src indicator)
       [''blacklist'', ''isblacklisted'', ''_blacklist'', ''banned'', ''isbanned'']"

definition detectWhitelist :: "string \<Rightarrow> bool" where
  "detectWhitelist src =
     list_ex (\<lambda>indicator. str_includes src indicator)
       [''whitelist'', ''iswhitelisted'', ''_whitelist'', ''allowed'', ''isallowed'']"

text \<open>
  \<open>analyzeContract\<close> after its two fetches: \<open>sourceInfo\<close> and \<open>creation\<close> are what
  \<open>getContractSource\<close> and \<open>getContractCreation\<close> resolved to (\<open>None\<close> for null).
\<close>

definition analyzeContract ::
  "RegexDetectors \<Rightarrow> SourceInfo option \<Rightarrow> CreationInfo option \<Rightarrow> ContractAnalysis" where
  "analyzeContract rx sourceInfo creation =
     (let analysis = \<lparr>
            verified = (case sourceInfo of None \<Rightarrow> False | Some si \<Rightarrow> isVerified si),
            isProxy = False,
            hasHoneypot = False,
            hasMintFunction = False,
            hasPauseFunction = False,
            hasBlacklist = False,
            hasWhitelist = False,
            buyTax = 0,
            sellTax = 0,
            ownershipRenounced = False,
            maxWalletLimit = None,
            maxTxLimit = None,
            lpLocked = False,
            lpLockDuration = None,
            creatorAddress =
              (case creation of None \<Rightarrow> ''Unknown''
               | Some c \<Rightarrow> if creator c = [] then ''Unknown'' else creator c),
            creationTimestamp =
              (case creation of None \<Rightarrow> 0 | Some c \<Rightarrow> timestamp c) \<rparr>
      in case sourceInfo of
           None \<Rightarrow> analysis
         | Some si \<Rightarrow>
             if \<not> isVerified si then analysis
             else
               (let src = toLowerCase rx (sourceCode si);
                    taxes = detectTaxes rx src
                in analysis \<lparr>
                     isProxy := detectProxyPattern src,
                     hasMintFunction := detectMintFunction rx src,
                     hasPauseFunction := detectPauseFunction rx src,
                     hasBlacklist := detectBlacklist src,
                     hasWhitelist := detectWhitelist src,
                     hasHoneypot := detectHoneypot rx src,
                     buyTax := fst taxes,
                     sellTax := snd taxes,
                     ownershipRenounced := detectOwnershipRenounced rx src,
                     lpLocked := False \<rparr>))"

text \<open>\<open>generateRedFlags\<close>; \<open>now\<close> is the value \<open>Date.now()\<close> returns inside it.\<close>

definition generateRedFlags :: "ContractAnalysis \<Rightarrow> int \<Rightarrow> RedFlag list" where
  "generateRedFlags analysis now =
     (if \<not> verified analysis then
        [\<lparr> severity = CRITICAL, category = CONTRACT,
           description = ''Contract source code is not verified'',
           evidence = Some ''Cannot analyze unverified contract code'' \<rparr>]
      else [])
     @ (if hasHoneypot analysis then
        [\<lparr> severity = CRITICAL, category = CONTRACT,
           description = ''Honeypot detected - may not be able to sell'',
           evidence = Some
             ''Contract contains transfer restrictions that could prevent selling'' \<rparr>]
      else [])
     @ (if isProxy analysis \<and> hasMintFunction analysis \<and> \<not> ownershipRenounced analysis then
        [\<lparr> severity = CRITICAL, category = CONTRACT,
           description = ''Upgradeable contract with mint function and active owner'',
           evidence = Some ''Owner can upgrade contract to mint unlimited tokens'' \<rparr>]
      else [])
     @ (if hasMintFunction analysis \<and> \<not> ownershipRenounced analysis then
        [\<lparr> severity = HIGH, category = CONTRACT,
           description = ''Contract has mint function and ownership not renounced'',
           evidence = Some ''Owner can mint new tokens at any time'' \<rparr>]
      else [])
     @ (if buyTax analysis > 10 \<or> sellTax analysis > 10 then
        [\<lparr> severity = HIGH, category = CONTRACT,
           description = ''Excessive trading taxes detected'',
           evidence = Some (''Buy tax: '' @ numToString (buyTax analysis)
                            @ ''%, Sell tax: '' @ numToString (sellTax analysis) @ ''%'') \<rparr>]
      else [])
     @ (if hasBlacklist analysis \<and> \<not> ownershipRenounced analysis then
        [\<lparr> severity = MEDIUM, category = CONTRACT,
           description = ''Contract can blacklist addresses'',
           evidence = Some ''Owner can prevent specific addresses from trading'' \<rparr>]
      else [])
     @ (if hasPauseFunction analysis \<and> \<not> ownershipRenounced analysis then
        [\<lparr> severity = MEDIUM, category = CONTRACT,
           description = ''Contract can be paused by owner'',
           evidence = Some ''Owner can halt all trading at any time'' \<rparr>]
      else [])
     @ (if \<not> lpLocked analysis \<and> creationTimestamp analysis > 0 then
          (let age = now - creationTimestamp analysis * 1000
           in if age < 7 * 24 * 60 * 60 * 1000 then
                [\<lparr> severity = HIGH, category = LIQUIDITY,
                   description = ''Liquidity not locked for new token'',
                   evidence = Some ''LP tokens are not locked, rug pull risk'' \<rparr>]
              else [])
        else [])"

section \<open>ScamDetector (scam-detector.ts)\<close>

text \<open>
  \<open>parseFloat\<close> is a parameter of the model: \<open>None\<close> stands for NaN, on which every
  comparison of the source is false; the infinities are not modelled.
\<close>

definition checkTokenomicsRedFlags ::
  "(string \<Rightarrow> rat option) \<Rightarrow> TokenomicsAnalysis \<Rightarrow> RedFlag list" where
  "checkTokenomicsRedFlags parseFloat tok =
     (let top10Percentage =
            foldl (\<lambda>sum holder. sum + percentage holder) 0 (take 10 (topHolders tok))
      in (if top10Percentage > 50 then
            [\<lparr> severity = HIGH, category = TOKENOMICS,
               description = ''High concentration in top 10 holders'',
               evidence = Some (''Top 10 holders own '' @ toFixed2 top10Percentage
                                @ ''% of supply'') \<rparr>]
          else [])
       @ (case topHolders tok of
            [] \<Rightarrow> []
          | largestHolder # _ \<Rightarrow>
              if percentage largestHolder > 20 then
                [\<lparr> severity = HIGH, category = TOKENOMICS,
                   description = ''Single address holds too much supply'',
                   evidence = Some (''Largest holder owns ''
                                    @ toFixed2 (percentage largestHolder)
                                    @ ''% of supply'') \<rparr>]
              else [])
       @ (if holderCount tok < 100 then
            [\<lparr> severity = MEDIUM, category = TOKENOMICS,
               description = ''Very few token holders'',
               evidence = Some (''Only '' @ numToString (holderCount tok)
                                @ '' holders'') \<rparr>]
          else [])
       @ (case lpTokens tok of
            None \<Rightarrow> []
          | Some lp \<Rightarrow>
              if lp \<noteq> [] \<and> marketCap tok > 0 then
                (case parseFloat lp of
                   None \<Rightarrow> []
                 | Some v \<Rightarrow>
                     (let liquidityRatio = v / marketCap tok
                      in if liquidityRatio < 5 / 100 then
                           [\<lparr> severity = HIGH, category = LIQUIDITY,
                              description = ''Very low liquidity relative to market cap'',
                              evidence = Some (''Liquidity is only ''
                                               @ toFixed2 (liquidityRatio * 100)
                                               @ ''% of market cap'') \<rparr>]
                         else []))
              else []))"

definition checkTeamRedFlags :: "TeamAnalysis \<Rightarrow> RedFlag list" where
  "checkTeamRedFlags team =
     (if \<not> isDoxxed team then
        [\<lparr> severity = MEDIUM, category = TEAM,
           description = ''Anonymous team'',
           evidence = Some ''No verified team member identities'' \<rparr>]
      else [])
     @ (if scamHistory team then
        [\<lparr> severity = CRITICAL, category = TEAM,
           description = ''Team has history of scam projects'',
           evidence = Some ''Team members involved in previous rug pulls or scams'' \<rparr>]
      else [])
     @ (case members team of
          None \<Rightarrow> []
        | Some ms \<Rightarrow>
            if length ms = 0 then
              [\<lparr> severity = HIGH, category = TEAM,
                 description = ''No team information available'',
                 evidence = Some ''Cannot verify team members'' \<rparr>]
            else [])"

definition checkCommunityRedFlags :: "CommunityAnalysis \<Rightarrow> RedFlag list" where
  "checkCommunityRedFlags community =
     (if botActivity community > 50 then
        [\<lparr> severity = HIGH, category = COMMUNITY,
           description = ''High bot activity detected'',
           evidence = Some (numToString (botActivity community)
                            @ ''% estimated bot activity'') \<rparr>]
      else [])
     @ (if twitterFollowers community > 1000 \<and> twitterEngagement community < 1 / 2 then
        [\<lparr> severity = MEDIUM, category = COMMUNITY,
           description = ''Low engagement relative to follower count'',
           evidence = Some ''Possible fake/bought followers'' \<rparr>]
      else [])
     @ (if sentimentScore community < - (1 / 2) then
        [\<lparr> severity = MEDIUM, category = COMMUNITY,
           description = ''Negative community sentiment'',
           evidence = Some (''Sentiment score: ''
                            @ toFixed2 (sentimentScore community)) \<rparr>]
      else [])"

definition checkPatternMatch :: "string list \<Rightarrow> ContractAnalysis \<Rightarrow> string list" where
  "checkPatternMatch inds ca =
     concat (map (\<lambda>indicator.
         (if indicator = ''is_proxy'' \<and> isProxy ca then [''Is proxy contract''] else [])
       @ (if indicator = ''has_mint'' \<and> hasMintFunction ca then [''Has mint function'']
          else [])
       @ (if indicator = ''ownership_not_renounced'' \<and> \<not> ownershipRenounced ca
          then [''Ownership not renounced''] else [])
       @ (if indicator = ''lp_not_locked'' \<and> \<not> lpLocked ca then [''LP not locked'']
          else [])) inds)"

text \<open>
  \<open>matchScamPatterns\<close>; \<open>db\<close> is the outcome of the awaited query
  \<open>SELECT * FROM scam_patterns\<close>: \<open>Inl\<close> when it rejects, the rows otherwise.
  Nothing in the method catches the rejection.
\<close>

definition matchScamPatterns ::
  "error + ScamPattern list \<Rightarrow> ProjectData \<Rightarrow> ContractAnalysis \<Rightarrow> error + RedFlag list" where
  "matchScamPatterns db projectData ca =
     (case db of
        Inl e \<Rightarrow> Inl e
      | Inr patterns \<Rightarrow>
          Inr (concat (map (\<lambda>pattern.
                 (let matches = checkPatternMatch (indicators pattern) ca
                  in if length matches > 0 then
                       [\<lparr> severity = p_severity pattern,
                          category = pattern_type pattern,
                          description = p_description pattern,
                          evidence = Some (join '', '' matches) \<rparr>]
                     else [])) patterns)))"

definition calculateContractSafety :: "ContractAnalysis \<Rightarrow> RedFlag list \<Rightarrow> int" where
  "calculateContractSafety ca flags =
     (let score = foldl (\<lambda>score flag.
                     case severity flag of
                       CRITICAL \<Rightarrow> score - 30
                     | HIGH \<Rightarrow> score - 20
                     | MEDIUM \<Rightarrow> score - 10
                     | LOW \<Rightarrow> score - 5)
                   100 (filter (\<lambda>f. category f = CONTRACT) flags);
          score = (if verified ca then score + 10 else score);
          score = (if ownershipRenounced ca then score + 10 else score);
          score = (if lpLocked ca then score + 10 else score)
      in max 0 (min 100 score))"

definition calculateTokenomicsScore :: "TokenomicsAnalysis \<Rightarrow> RedFlag list \<Rightarrow> int" where
  "calculateTokenomicsScore tok flags =
     (let score = foldl (\<lambda>score flag.
                     case severity flag of
                       CRITICAL \<Rightarrow> score - 30
                     | HIGH \<Rightarrow> score - 20
                     | MEDIUM \<Rightarrow> score - 10
                     | LOW \<Rightarrow> score - 5)
                   100 (filter (\<lambda>f. category f = TOKENOMICS) flags)
      in max 0 (min 100 score))"

definition calculateTeamScore :: "TeamAnalysis \<Rightarrow> RedFlag list \<Rightarrow> int" where
  "calculateTeamScore team flags =
     (let score = 50;
          score = (if isDoxxed team then score + 30 else score);
          score = (case members team of
                     None \<Rightarrow> score
                   | Some ms \<Rightarrow> if length ms > 0 then score + 10 else score);
          score = (case previousProjects team of
                     None \<Rightarrow> score
                   | Some ps \<Rightarrow> if length ps > 0 then score + 10 else score);
          score = foldl (\<lambda>score flag.
                     case severity flag of
                       CRITICAL \<Rightarrow> score - 40
                     | HIGH \<Rightarrow> score - 20
                     | MEDIUM \<Rightarrow> score - 10
                     | LOW \<Rightarrow> score)
                   score (filter (\<lambda>f. category f = TEAM) flags)
      in max 0 (min 100 score))"

definition calculateCommunityScore :: "CommunityAnalysis \<Rightarrow> RedFlag list \<Rightarrow> int" where
  "calculateCommunityScore community flags =
     (let score = 50;
          score = (if holderGrowthRate community > 0 then score + 10 else score);
          score = (if sentimentScore community > 1 / 2 then score + 10 else score);
          score = (if twitterEngagement community > 2 then score + 10 else score);
          score = foldl (\<lambda>score flag.
                     case severity flag of
                       HIGH \<Rightarrow> score - 20
                     | MEDIUM \<Rightarrow> score - 10
                     | _ \<Rightarrow> score)
                   score (filter (\<lambda>f. category f = COMMUNITY) flags)
      in max 0 (min 100 score))"

definition calculateLiquidityRisk :: "ContractAnalysis \<Rightarrow> RedFlag list \<Rightarrow> int" where
  "calculateLiquidityRisk ca flags =
     (let score = 50;
          score = (if lpLocked ca then score + 30 else score);
          score = foldl (\<lambda>score flag.
                     case severity flag of
                       CRITICAL \<Rightarrow> score - 30
                     | HIGH \<Rightarrow> score - 20
                     | MEDIUM \<Rightarrow> score - 10
                     | LOW \<Rightarrow> score)
                   score (filter (\<lambda>f. category f = LIQUIDITY) flags)
      in max 0 (min 100 score))"

definition determineRecommendation :: "int \<Rightarrow> RedFlag list \<Rightarrow> Recommendation" where
  "determineRecommendation overallScore flags =
     (let hasCritical = list_ex (\<lambda>f. severity f = CRITICAL) flags
      in if hasCritical \<or> overallScore < 30 then AVOID
         else if overallScore < 50 then HIGH_RISK
         else if overallScore < 70 then MODERATE_RISK
         else if overallScore < 85 then LOW_RISK
         else SAFE)"

fun severityOrder :: "Severity \<Rightarrow> nat" where
  "severityOrder CRITICAL = 0"
| "severityOrder HIGH = 1"
| "severityOrder MEDIUM = 2"
| "severityOrder LOW = 3"

fun severityName :: "Severity \<Rightarrow> string" where
  "severityName CRITICAL = ''CRITICAL''"
| "severityName HIGH = ''HIGH''"
| "severityName MEDIUM = ''MEDIUM''"
| "severityName LOW = ''LOW''"

text \<open>
  \<open>generateWarnings\<close>. \<open>Array.prototype.sort\<close> sorts the array it is called on, in
  place and stably, and returns that same array; the model returns the contents the
  argument array has afterwards together with the warnings mapped from it.
\<close>

definition generateWarnings :: "RedFlag list \<Rightarrow> RedFlag list \<times> string list" where
  "generateWarnings flags =
     (let sorted = sort_key (\<lambda>flag. severityOrder (severity flag)) flags
      in (sorted,
          map (\<lambda>flag. ''['' @ severityName (severity flag) @ ''] '' @ description flag)
            sorted))"

text \<open>
  \<open>detectScam\<close>. \<open>nowFlags\<close> is the clock reading inside \<open>generateRedFlags\<close> and
  \<open>nowResult\<close> the one that stamps the result. The \<open>redFlags\<close> field of the result is
  the array \<open>generateWarnings\<close> has sorted.
\<close>

definition detectScam ::
  "error + ScamPattern list \<Rightarrow> (string \<Rightarrow> rat option) \<Rightarrow> int \<Rightarrow> int \<Rightarrow>
   ProjectData \<Rightarrow> ContractAnalysis \<Rightarrow> TokenomicsAnalysis option \<Rightarrow>
   TeamAnalysis option \<Rightarrow> CommunityAnalysis option \<Rightarrow> error + RiskScore" where
  "detectScam db parseFloat nowFlags nowResult projectData ca tok team community =
     (let flags = generateRedFlags ca nowFlags;
          flags = flags @ (case tok of None \<Rightarrow> []
                           | Some t \<Rightarrow> checkTokenomicsRedFlags parseFloat t);
          flags = flags @ (case team of None \<Rightarrow> [] | Some t \<Rightarrow> checkTeamRedFlags t);
          flags = flags @ (case community of None \<Rightarrow> []
                           | Some c \<Rightarrow> checkCommunityRedFlags c)
      in case matchScamPatterns db projectData ca of
           Inl e \<Rightarrow> Inl e
         | Inr patternRedFlags \<Rightarrow>
             (let flags = flags @ patternRedFlags;
                  contractSafety = calculateContractSafety ca flags;
                  tokenomicsScore =
                    (case tok of None \<Rightarrow> 50 | Some t \<Rightarrow> calculateTokenomicsScore t flags);
                  teamCredibility =
                    (case team of None \<Rightarrow> 50 | Some t \<Rightarrow> calculateTeamScore t flags);
                  communityHealth =
                    (case community of None \<Rightarrow> 50
                     | Some c \<Rightarrow> calculateCommunityScore c flags);
                  liquidityRisk = calculateLiquidityRisk ca flags;
                  overall = mathRound
                    (of_int contractSafety * (3 / 10)
                     + of_int tokenomicsScore * (25 / 100)
                     + of_int teamCredibility * (2 / 10)
                     + of_int communityHealth * (15 / 100)
                     + of_int liquidityRisk * (1 / 10));
                  recommendation = determineRecommendation overall flags;
                  (flags, warnings) = generateWarnings flags
              in Inr \<lparr> overall = overall,
                       contractSafety = contractSafety,
                       tokenomics = tokenomicsScore,
                       teamCredibility = teamCredibility,
                       communityHealth = communityHealth,
                       liquidityRisk = liquidityRisk,
                       redFlags = flags,
                       warnings = warnings,
                       recommendation = recommendation,
                       analysisTimestamp = nowResult \<rparr>))"

section \<open>Notions used in the statements\<close>

text \<open>
  The flags \<open>matchScamPatterns\<close> returns when the query resolved to \<open>patterns\<close>
  (see \<open>matchScamPatterns_Inr\<close>).
\<close>

definition matchedFlags :: "ScamPattern list \<Rightarrow> ContractAnalysis \<Rightarrow> RedFlag list" where
  "matchedFlags patterns ca =
     concat (map (\<lambda>pattern.
        (let matches = checkPatternMatch (indicators pattern) ca
         in if length matches > 0 then
              [\<lparr> severity = p_severity pattern, category = pattern_type pattern,
                 description = p_description pattern,
                 evidence = Some (join '', '' matches) \<rparr>]
            else [])) patterns)"

text \<open>
  The array \<open>redFlags\<close> of \<open>detectScam\<close> as it is after the last \<open>push\<close>: the
  order in which the rules fired.
\<close>

definition insertionOrder ::
  "ScamPattern list \<Rightarrow> (string \<Rightarrow> rat option) \<Rightarrow> int \<Rightarrow> ContractAnalysis \<Rightarrow>
   TokenomicsAnalysis option \<Rightarrow> TeamAnalysis option \<Rightarrow> CommunityAnalysis option \<Rightarrow>
   RedFlag list" where
  "insertionOrder patterns parseFloat nowFlags ca tok team community =
     generateRedFlags ca nowFlags
     @ (case tok of None \<Rightarrow> [] | Some t \<Rightarrow> checkTokenomicsRedFlags parseFloat t)
     @ (case team of None \<Rightarrow> [] | Some t \<Rightarrow> checkTeamRedFlags t)
     @ (case community of None \<Rightarrow> [] | Some c \<Rightarrow> checkCommunityRedFlags c)
     @ matchedFlags patterns ca"

text \<open>The composite of \<open>detectScam\<close>, named.\<close>

definition weightedOverall :: "int \<Rightarrow> int \<Rightarrow> int \<Rightarrow> int \<Rightarrow> int \<Rightarrow> int" where
  "weightedOverall cs ts tc ch lr =
     mathRound (of_int cs * (3 / 10) + of_int ts * (25 / 100) + of_int tc * (2 / 10)
                + of_int ch * (15 / 100) + of_int lr * (1 / 10))"

text \<open>One warning line, and the stable severity sort, named.\<close>

definition renderWarning :: "RedFlag \<Rightarrow> string" where
  "renderWarning flag = ''['' @ severityName (severity flag) @ ''] '' @ description flag"

definition severitySorted :: "RedFlag list \<Rightarrow> RedFlag list" where
  "severitySorted flags = sort_key (\<lambda>flag. severityOrder (severity flag)) flags"

text \<open>All five sub-scores and the overall score lie in 0..100.\<close>

definition scoresInRange :: "RiskScore \<Rightarrow> bool" where
  "scoresInRange r =
     (0 \<le> contractSafety r \<and> contractSafety r \<le> 100
      \<and> 0 \<le> tokenomics r \<and> tokenomics r \<le> 100
      \<and> 0 \<le> teamCredibility r \<and> teamCredibility r \<le> 100
      \<and> 0 \<le> communityHealth r \<and> communityHealth r \<le> 100
      \<and> 0 \<le> liquidityRisk r \<and> liquidityRisk r \<le> 100
      \<and> 0 \<le> overall r \<and> overall r \<le> 100)"

text \<open>A result with its time stamp blanked, to compare two calls in every other field.\<close>

definition withoutTimestamp :: "RiskScore \<Rightarrow> RiskScore" where
  "withoutTimestamp r = r \<lparr> analysisTimestamp := 0 \<rparr>"

text \<open>
  The condition under which \<open>generateRedFlags\<close> emits the liquidity flag; the only
  place where the clock decides a flag.
\<close>

definition liquidityAgeRule :: "ContractAnalysis \<Rightarrow> int \<Rightarrow> bool" where
  "liquidityAgeRule ca now =
     (\<not> lpLocked ca \<and> creationTimestamp ca > 0
      \<and> now - creationTimestamp ca * 1000 < 7 * 24 * 60 * 60 * 1000)"

text \<open>The guard \<open>!sourceInfo || !sourceInfo.isVerified\<close> of \<open>analyzeContract\<close>.\<close>

definition sourceUnavailable :: "SourceInfo option \<Rightarrow> bool" where
  "sourceUnavailable sourceInfo =
     (case sourceInfo of None \<Rightarrow> True | Some si \<Rightarrow> \<not> isVerified si)"

text \<open>
  The indicator mapping in the words of the specification: which named indicator holds
  of a contract analysis, which names the engine knows, and the label the engine prints
  for a matched name.
\<close>

definition indicatorMatches :: "string \<Rightarrow> ContractAnalysis \<Rightarrow> bool" where
  "indicatorMatches i ca =
     (i = ''is_proxy'' \<and> isProxy ca
      \<or> i = ''has_mint'' \<and> hasMintFunction ca
      \<or> i = ''ownership_not_renounced'' \<and> \<not> ownershipRenounced ca
      \<or> i = ''lp_not_locked'' \<and> \<not> lpLocked ca)"

definition recognizedIndicator :: "string \<Rightarrow> bool" where
  "recognizedIndicator i =
     (i \<in> set [''is_proxy'', ''has_mint'', ''ownership_not_renounced'', ''lp_not_locked''])"

definition indicatorLabel :: "string \<Rightarrow> string" where
  "indicatorLabel i =
     (if i = ''is_proxy'' then ''Is proxy contract''
      else if i = ''has_mint'' then ''Has mint function''
      else if i = ''ownership_not_renounced'' then ''Ownership not renounced''
      else if i = ''lp_not_locked'' then ''LP not locked''
      else i)"

section \<open>Concrete inputs\<close>

text \<open>
  Inputs at which the statements below are evaluated. \<open>defaultPatterns\<close> are the eight
  rows that schema.sql inserts into \<open>scam_patterns\<close>; \<open>honestToken\<close> is Scenario A
  of the specification.
\<close>

definition someProject :: ProjectData where
  "someProject = \<lparr> pd_id = ''p1'', pd_contractAddress = ''0xabc'', pd_name = ''Token'',
     pd_symbol = None, pd_chain = ''ethereum'', pd_discoveredAt = 0, pd_description = None,
     pd_category = None, pd_website = None, pd_twitter = None, pd_telegram = None,
     pd_discord = None, pd_whitepaper = None, pd_github = None \<rparr>"

definition otherProject :: ProjectData where
  "otherProject = someProject \<lparr> pd_id := ''p2'', pd_name := ''Other'', pd_chain := ''bsc'' \<rparr>"

definition honestToken :: ContractAnalysis where
  "honestToken = \<lparr> verified = True, isProxy = False, hasHoneypot = False,
     hasMintFunction = False, hasPauseFunction = False, hasBlacklist = False,
     hasWhitelist = False, buyTax = 0, sellTax = 0, ownershipRenounced = True,
     maxWalletLimit = None, maxTxLimit = None, lpLocked = True, lpLockDuration = None,
     creatorAddress = ''0xc0ffee'', creationTimestamp = 1700000000 \<rparr>"

definition mintableToken :: ContractAnalysis where
  "mintableToken = honestToken \<lparr> hasMintFunction := True, ownershipRenounced := False,
     lpLocked := False, creationTimestamp := 0 \<rparr>"

definition unverifiedRenouncedLocked :: ContractAnalysis where
  "unverifiedRenouncedLocked = honestToken \<lparr> verified := False \<rparr>"

definition youngUnlockedToken :: ContractAnalysis where
  "youngUnlockedToken = honestToken \<lparr> lpLocked := False \<rparr>"

definition worstContract :: ContractAnalysis where
  "worstContract = \<lparr> verified = False, isProxy = True, hasHoneypot = True,
     hasMintFunction = True, hasPauseFunction = True, hasBlacklist = True,
     hasWhitelist = True, buyTax = 99, sellTax = 99, ownershipRenounced = False,
     maxWalletLimit = None, maxTxLimit = None, lpLocked = False, lpLockDuration = None,
     creatorAddress = ''Unknown'', creationTimestamp = 1700000000 \<rparr>"

definition worstTokenomics :: TokenomicsAnalysis where
  "worstTokenomics = \<lparr> totalSupply = ''1000'', circulatingSupply = ''1000'',
     topHolders = [\<lparr> h_address = ''0x1'', h_balance = ''900'', percentage = 90 \<rparr>],
     holderCount = 3, lpPairAddress = None, lpTokens = Some ''1'',
     marketCap = 1000000, fullyDilutedValue = 1000000 \<rparr>"

definition worstTeam :: TeamAnalysis where
  "worstTeam = \<lparr> isDoxxed = False, members = Some [], previousProjects = None,
     scamHistory = True \<rparr>"

definition worstCommunity :: CommunityAnalysis where
  "worstCommunity = \<lparr> twitterFollowers = 50000, twitterEngagement = 1 / 10,
     telegramMembers = 0, discordMembers = 0, holderGrowthRate = - 1,
     sentimentScore = - 9 / 10, botActivity = 95 \<rparr>"

definition allCriticalPatterns :: "ScamPattern list" where
  "allCriticalPatterns =
     map (\<lambda>c.
        \<lparr> pattern_type = c, p_description = ''Adversarial'',
          indicators = [''is_proxy'', ''lp_not_locked''], p_severity = CRITICAL \<rparr>)
      [CONTRACT, CONTRACT, TOKENOMICS, TOKENOMICS, TEAM, TEAM, COMMUNITY, COMMUNITY,
       LIQUIDITY, LIQUIDITY]"

definition defaultPatterns :: "ScamPattern list" where
  "defaultPatterns =
    [\<lparr> pattern_type = CONTRACT, p_description = ''Honeypot - Can buy but cannot sell'',
       indicators = [''no_sell_function'', ''transfer_restrictions'', ''blacklist_on_sell''],
       p_severity = CRITICAL \<rparr>,
     \<lparr> pattern_type = CONTRACT, p_description = ''Hidden mint function in proxy contract'',
       indicators = [''is_proxy'', ''has_mint'', ''ownership_not_renounced''],
       p_severity = CRITICAL \<rparr>,
     \<lparr> pattern_type = TOKENOMICS, p_description = ''Extreme concentration in top holders'',
       indicators = [''top_10_holders > 50%'', ''team_allocation > 30%''],
       p_severity = HIGH \<rparr>,
     \<lparr> pattern_type = TOKENOMICS, p_description = ''Unlocked liquidity with high market cap'',
       indicators = [''lp_not_locked'', ''market_cap > 1000000''],
       p_severity = HIGH \<rparr>,
     \<lparr> pattern_type = TEAM, p_description = ''Anonymous team with no history'',
       indicators = [''team_anonymous'', ''no_previous_projects'', ''no_linkedin''],
       p_severity = MEDIUM \<rparr>,
     \<lparr> pattern_type = TEAM, p_description = ''Fake team members using stock photos'',
       indicators = [''fake_profile_images'', ''copied_bios''],
       p_severity = CRITICAL \<rparr>,
     \<lparr> pattern_type = OtherCategory ''SOCIAL'',
       p_description = ''Sudden follower spike indicating bought followers'',
       indicators = [''follower_spike > 1000%'', ''low_engagement_rate''],
       p_severity = MEDIUM \<rparr>,
     \<lparr> pattern_type = OtherCategory ''BEHAVIOR'',
       p_description = ''Multiple wallets controlled by same entity (Sybil)'',
       indicators = [''similar_funding_source'', ''coordinated_trading'', ''same_gas_patterns''],
       p_severity = HIGH \<rparr>]"

definition stubDetectors :: RegexDetectors where
  "stubDetectors = \<lparr> toLowerCase = (\<lambda>s. s), detectMintFunction = (\<lambda>s. True),
     detectPauseFunction = (\<lambda>s. True), detectHoneypot = (\<lambda>s. True),
     detectTaxes = (\<lambda>s. (25, 25)), detectOwnershipRenounced = (\<lambda>s. True) \<rparr>"

definition decimalOne :: "string \<Rightarrow> rat option" where
  "decimalOne s = (if s = ''1'' then Some 1 else None)"

definition hiddenMintPattern :: ScamPattern where
  "hiddenMintPattern =
     \<lparr> pattern_type = CONTRACT, p_description = ''Hidden mint function in proxy contract'',
       indicators = [''is_proxy'', ''has_mint'', ''ownership_not_renounced''],
       p_severity = CRITICAL \<rparr>"

definition proxyMintToken :: ContractAnalysis where
  "proxyMintToken = honestToken \<lparr> isProxy := True, hasMintFunction := True,
     ownershipRenounced := False \<rparr>"

definition unverifiedSource :: SourceInfo where
  "unverifiedSource = \<lparr> sourceCode = [], abi = ''Contract source code not verified'',
     contractName = [], compilerVersion = [], optimizationUsed = [],
     isVerified = False \<rparr>"

definition someCreation :: CreationInfo where
  "someCreation = \<lparr> creator = ''0xc0ffee'', txHash = ''0xfeed'', timestamp = 1700000000 \<rparr>"

section \<open>Auxiliary facts\<close>

lemma matchScamPatterns_Inr:
  "matchScamPatterns (Inr patterns) pd ca = Inr (matchedFlags patterns ca)"
  by (simp add: matchScamPatterns_def matchedFlags_def)

lemma matchScamPatterns_Inl: "matchScamPatterns (Inl e) pd ca = Inl e"
  by (simp add: matchScamPatterns_def)

lemma detectScam_Inl: "detectScam (Inl e) pf n1 n2 pd ca tok team comm = Inl e"
  by (simp add: detectScam_def matchScamPatterns_Inl)

lemma detectScam_Inr:
  "detectScam (Inr patterns) pf n1 n2 pd ca tok team comm =
     (let flags = insertionOrder patterns pf n1 ca tok team comm;
          cs = calculateContractSafety ca flags;
          ts = (case tok of None \<Rightarrow> 50 | Some t \<Rightarrow> calculateTokenomicsScore t flags);
          tc = (case team of None \<Rightarrow> 50 | Some t \<Rightarrow> calculateTeamScore t flags);
          ch = (case comm of None \<Rightarrow> 50 | Some c \<Rightarrow> calculateCommunityScore c flags);
          lr = calculateLiquidityRisk ca flags
      in Inr \<lparr> overall = weightedOverall cs ts tc ch lr,
               contractSafety = cs, tokenomics = ts, teamCredibility = tc,
               communityHealth = ch, liquidityRisk = lr,
               redFlags = severitySorted flags,
               warnings = map renderWarning (severitySorted flags),
               recommendation = determineRecommendation (weightedOverall cs ts tc ch lr) flags,
               analysisTimestamp = n2 \<rparr>)"
  by (cases tok; cases team; cases comm;
      simp add: detectScam_def matchScamPatterns_Inr insertionOrder_def weightedOverall_def
        generateWarnings_def severitySorted_def renderWarning_def Let_def)

lemma mathRound_range: "0 \<le> x \<Longrightarrow> x \<le> 100 \<Longrightarrow> 0 \<le> mathRound x \<and> mathRound x \<le> 100"
  unfolding mathRound_def by (simp add: floor_le_iff le_floor_iff)

lemma calculateContractSafety_range:
  "0 \<le> calculateContractSafety ca flags \<and> calculateContractSafety ca flags \<le> 100"
  by (simp add: calculateContractSafety_def Let_def)

lemma calculateTokenomicsScore_range:
  "0 \<le> calculateTokenomicsScore t flags \<and> calculateTokenomicsScore t flags \<le> 100"
  by (simp add: calculateTokenomicsScore_def Let_def)

lemma calculateTeamScore_range:
  "0 \<le> calculateTeamScore t flags \<and> calculateTeamScore t flags \<le> 100"
  by (simp add: calculateTeamScore_def Let_def)

lemma calculateCommunityScore_range:
  "0 \<le> calculateCommunityScore c flags \<and> calculateCommunityScore c flags \<le> 100"
  by (simp add: calculateCommunityScore_def Let_def)

lemma calculateLiquidityRisk_range:
  "0 \<le> calculateLiquidityRisk ca flags \<and> calculateLiquidityRisk ca flags \<le> 100"
  by (simp add: calculateLiquidityRisk_def Let_def)

lemma weightedOverall_range:
  assumes "0 \<le> cs" "cs \<le> 100" "0 \<le> ts" "ts \<le> 100" "0 \<le> tc" "tc \<le> 100"
    "0 \<le> ch" "ch \<le> 100" "0 \<le> lr" "lr \<le> 100"
  shows "0 \<le> weightedOverall cs ts tc ch lr \<and> weightedOverall cs ts tc ch lr \<le> 100"
proof -
  let ?x = "(of_int cs * (3 / 10) + of_int ts * (25 / 100) + of_int tc * (2 / 10)
                + of_int ch * (15 / 100) + of_int lr * (1 / 10)) :: rat"
  have c: "(0::rat) \<le> of_int cs" "(of_int cs :: rat) \<le> 100"
    "(0::rat) \<le> of_int ts" "(of_int ts :: rat) \<le> 100"
    "(0::rat) \<le> of_int tc" "(of_int tc :: rat) \<le> 100"
    "(0::rat) \<le> of_int ch" "(of_int ch :: rat) \<le> 100"
    "(0::rat) \<le> of_int lr" "(of_int lr :: rat) \<le> 100"
    using assms by simp_all
  have "0 \<le> ?x" using c by simp
  moreover have "?x \<le> 100" using c by simp
  ultimately show ?thesis
    unfolding weightedOverall_def by (rule mathRound_range)
qed

lemma clamp_mono: "(a::int) \<le> b \<Longrightarrow> max 0 (min 100 a) \<le> max 0 (min 100 b)"
  by simp

lemma foldl_filter_snoc_le:
  fixes step :: "int \<Rightarrow> 'a \<Rightarrow> int"
  assumes "\<And>s x. step s x \<le> s"
  shows "foldl step s0 (filter P (xs @ [f])) \<le> foldl step s0 (filter P xs)"
  by (simp add: assms)

lemma weightedOverall_div:
  "weightedOverall cs ts tc ch lr =
     (30 * cs + 25 * ts + 20 * tc + 15 * ch + 10 * lr + 50) div 100"
proof -
  have "(of_int cs * (3 / 10) + of_int ts * (25 / 100) + of_int tc * (2 / 10)
          + of_int ch * (15 / 100) + of_int lr * (1 / 10) + 1 / 2 :: rat)
        = of_int (30 * cs + 25 * ts + 20 * tc + 15 * ch + 10 * lr + 50) / of_int 100"
    by (simp add: field_simps)
  then show ?thesis
    unfolding weightedOverall_def mathRound_def by (simp only: floor_divide_of_int_eq)
qed

lemmas eval_defs = detectScam_Inr insertionOrder_def generateRedFlags_def matchedFlags_def
  checkPatternMatch_def calculateContractSafety_def calculateTokenomicsScore_def
  calculateTeamScore_def calculateCommunityScore_def calculateLiquidityRisk_def
  weightedOverall_div determineRecommendation_def severitySorted_def
  renderWarning_def Let_def

lemma generateRedFlags_clock:
  "liquidityAgeRule ca n1 = liquidityAgeRule ca n2 \<Longrightarrow>
   generateRedFlags ca n1 = generateRedFlags ca n2"
  by (auto simp add: generateRedFlags_def liquidityAgeRule_def Let_def)

lemma insertionOrder_clock:
  "liquidityAgeRule ca n1 = liquidityAgeRule ca n2 \<Longrightarrow>
   insertionOrder ps pf n1 ca tok team comm = insertionOrder ps pf n2 ca tok team comm"
  using generateRedFlags_clock [of ca n1 n2] by (simp add: insertionOrder_def)

lemma checkPatternMatch_labels:
  "checkPatternMatch inds ca =
     map indicatorLabel (filter (\<lambda>i. indicatorMatches i ca) inds)"
  by (induction inds) (auto simp add: checkPatternMatch_def indicatorMatches_def indicatorLabel_def)

lemma unverified_flag_first:
  "\<not> verified ca \<Longrightarrow>
   \<exists>rest. generateRedFlags ca now =
     \<lparr> severity = CRITICAL, category = CONTRACT,
       description = ''Contract source code is not verified'',
       evidence = Some ''Cannot analyze unverified contract code'' \<rparr> # rest"
  by (simp add: generateRedFlags_def)

lemma foldl_deduct_le:
  fixes step :: "int \<Rightarrow> 'a \<Rightarrow> int"
  assumes "\<And>s x. step s x \<le> s"
  shows "foldl step s0 xs \<le> s0"
proof (induction xs rule: rev_induct)
  case Nil
  show ?case by simp
next
  case (snoc x xs)
  have "foldl step s0 (xs @ [x]) \<le> foldl step s0 xs" by (simp add: assms)
  with snoc show ?case by linarith
qed

lemma contractSafety_unverified_le:
  assumes "\<not> verified ca" "category f = CONTRACT" "severity f = CRITICAL"
  shows "calculateContractSafety ca (f # flags)
         \<le> 70 + (if ownershipRenounced ca then 10 else 0) + (if lpLocked ca then 10 else 0)"
proof -
  let ?step = "\<lambda>(score::int) flag.
                 case severity flag of
                   CRITICAL \<Rightarrow> score - 30
                 | HIGH \<Rightarrow> score - 20
                 | MEDIUM \<Rightarrow> score - 10
                 | LOW \<Rightarrow> score - 5"
  define a where "a = foldl ?step 70 (filter (\<lambda>f. category f = CONTRACT) flags)"
  have "a \<le> 70"
    unfolding a_def by (rule foldl_deduct_le) (simp split: Severity.split)
  then show ?thesis
    using assms unfolding calculateContractSafety_def Let_def
    by (simp add: a_def [symmetric])
qed

section \<open>C1: recommendation precedence\<close>

text \<open>
  Claim C1. For every overall score and every list of red flags,
  \<open>determineRecommendation\<close> returns AVOID when some flag is CRITICAL or the score is
  below 30, and otherwise HIGH_RISK below 50, MODERATE_RISK below 70, LOW_RISK below 85
  and SAFE from 85 on; so one CRITICAL flag forces AVOID whatever the score.
\<close>

theorem determineRecommendation_precedence:
  "determineRecommendation overallScore flags =
     (if (\<exists>f \<in> set flags. severity f = CRITICAL) \<or> overallScore < 30 then AVOID
      else if overallScore < 50 then HIGH_RISK
      else if overallScore < 70 then MODERATE_RISK
      else if overallScore < 85 then LOW_RISK
      else SAFE)"
  by (simp add: determineRecommendation_def list_ex_iff)

text \<open>
  C1 at concrete inputs: score 92 with the CRITICAL scam-history flag gives AVOID, and
  each tier is reached without flags.
\<close>

theorem determineRecommendation_precedence_witness:
  "determineRecommendation 92
     [\<lparr> severity = CRITICAL, category = TEAM,
        description = ''Team has history of scam projects'',
        evidence = Some ''Team members involved in previous rug pulls or scams'' \<rparr>] = AVOID
   \<and> determineRecommendation 92 [] = SAFE
   \<and> determineRecommendation 84 [] = LOW_RISK
   \<and> determineRecommendation 69 [] = MODERATE_RISK
   \<and> determineRecommendation 49 [] = HIGH_RISK
   \<and> determineRecommendation 29 [] = AVOID"
  using determineRecommendation_precedence [of 92
      "[\<lparr> severity = CRITICAL, category = TEAM,
        description = ''Team has history of scam projects'',
        evidence = Some ''Team members involved in previous rug pulls or scams'' \<rparr>]"]
    determineRecommendation_precedence [of 92 "[]"]
    determineRecommendation_precedence [of 84 "[]"]
    determineRecommendation_precedence [of 69 "[]"]
    determineRecommendation_precedence [of 49 "[]"]
    determineRecommendation_precedence [of 29 "[]"]
  by simp

section \<open>C2: clamping\<close>

text \<open>
  Claim C2. Whenever the registry query resolves, \<open>detectScam\<close> returns a RiskScore,
  and in every RiskScore it returns, for any inputs and any registry contents, the five
  sub-scores and the overall score lie within 0..100.
\<close>

theorem detectScam_scores_clamped:
  "(\<exists>r. detectScam (Inr patterns) pf n1 n2 pd ca tok team comm = Inr r)
   \<and> (\<forall>r. detectScam db pf n1 n2 pd ca tok team comm = Inr r \<longrightarrow> scoresInRange r)"
proof -
  have ok: "scoresInRange r" if "detectScam (Inr ps) pf n1 n2 pd ca tok team comm = Inr r"
    for ps r
  proof -
    let ?fl = "insertionOrder ps pf n1 ca tok team comm"
    let ?ts = "case tok of None \<Rightarrow> 50 | Some t \<Rightarrow> calculateTokenomicsScore t ?fl"
    let ?tc = "case team of None \<Rightarrow> 50 | Some t \<Rightarrow> calculateTeamScore t ?fl"
    let ?ch = "case comm of None \<Rightarrow> 50 | Some c \<Rightarrow> calculateCommunityScore c ?fl"
    have ts: "0 \<le> ?ts \<and> ?ts \<le> 100"
      using calculateTokenomicsScore_range by (cases tok) simp_all
    have tc: "0 \<le> ?tc \<and> ?tc \<le> 100"
      using calculateTeamScore_range by (cases team) simp_all
    have ch: "0 \<le> ?ch \<and> ?ch \<le> 100"
      using calculateCommunityScore_range by (cases comm) simp_all
    note cs = calculateContractSafety_range [of ca ?fl]
    note lr = calculateLiquidityRisk_range [of ca ?fl]
    have ov: "0 \<le> weightedOverall (calculateContractSafety ca ?fl) ?ts ?tc ?ch
                    (calculateLiquidityRisk ca ?fl)
              \<and> weightedOverall (calculateContractSafety ca ?fl) ?ts ?tc ?ch
                    (calculateLiquidityRisk ca ?fl) \<le> 100"
      using cs ts tc ch lr by (intro weightedOverall_range) simp_all
    from that have "r = \<lparr> overall = weightedOverall (calculateContractSafety ca ?fl) ?ts ?tc ?ch
                    (calculateLiquidityRisk ca ?fl),
               contractSafety = calculateContractSafety ca ?fl, tokenomics = ?ts,
               teamCredibility = ?tc,
               communityHealth = ?ch, liquidityRisk = calculateLiquidityRisk ca ?fl,
               redFlags = severitySorted ?fl,
               warnings = map renderWarning (severitySorted ?fl),
               recommendation = determineRecommendation (weightedOverall (calculateContractSafety ca ?fl) ?ts ?tc ?ch
                    (calculateLiquidityRisk ca ?fl)) ?fl,
               analysisTimestamp = n2 \<rparr>"
      by (simp add: detectScam_Inr Let_def)
    then show ?thesis
      using cs ts tc ch lr ov by (simp add: scoresInRange_def)
  qed
  have "\<exists>r. detectScam (Inr patterns) pf n1 n2 pd ca tok team comm = Inr r"
    by (simp add: detectScam_Inr Let_def)
  moreover have "\<forall>r. detectScam db pf n1 n2 pd ca tok team comm = Inr r \<longrightarrow> scoresInRange r"
    by (cases db) (auto simp: detectScam_Inl intro: ok)
  ultimately show ?thesis by blast
qed

text \<open>
  C2 at an adversarial input: every contract rule fires, tokenomics, team and community
  are as bad as the rules can see, and the registry holds two matching CRITICAL patterns
  for each of the five categories. The scores bottom out at 0; \<open>communityHealth\<close>
  stays at 10 because its calculator has no deduction for CRITICAL flags.
\<close>

theorem detectScam_scores_clamped_witness:
  "map_sum id (\<lambda>r. (contractSafety r, tokenomics r, teamCredibility r, communityHealth r,
                     liquidityRisk r, overall r, recommendation r))
     (detectScam (Inr allCriticalPatterns) decimalOne 1700000001000 1700000002000
         someProject worstContract (Some worstTokenomics) (Some worstTeam)
         (Some worstCommunity)) = Inr (0, 0, 0, 10, 0, 2, AVOID)
   \<and> (\<exists>r. detectScam (Inr allCriticalPatterns) decimalOne 1700000001000 1700000002000
         someProject worstContract (Some worstTokenomics) (Some worstTeam)
         (Some worstCommunity) = Inr r
       \<and> scoresInRange r)"
proof -
  have "map_sum id (\<lambda>r. (contractSafety r, tokenomics r, teamCredibility r, communityHealth r,
                     liquidityRisk r, overall r, recommendation r))
     (detectScam (Inr allCriticalPatterns) decimalOne 1700000001000 1700000002000
         someProject worstContract (Some worstTokenomics) (Some worstTeam)
         (Some worstCommunity)) = Inr (0, 0, 0, 10, 0, 2, AVOID)"
    by (simp add: eval_defs allCriticalPatterns_def worstContract_def worstTokenomics_def
        worstTeam_def worstCommunity_def decimalOne_def checkTokenomicsRedFlags_def
        checkTeamRedFlags_def checkCommunityRedFlags_def)
  moreover have "\<exists>r. detectScam (Inr allCriticalPatterns) decimalOne 1700000001000
         1700000002000 someProject worstContract (Some worstTokenomics) (Some worstTeam)
         (Some worstCommunity) = Inr r
       \<and> scoresInRange r"
    using detectScam_scores_clamped [of allCriticalPatterns decimalOne 1700000001000
        1700000002000 someProject worstContract "Some worstTokenomics" "Some worstTeam"
        "Some worstCommunity" "Inr allCriticalPatterns"]
    by blast
  ultimately show ?thesis by blast
qed

section \<open>C3: unverified source\<close>

text \<open>
  C3 as stated fails: an analysis with \<open>verified = false\<close> whose
  \<open>ownershipRenounced\<close> and \<open>lpLocked\<close> are true loses 30 for the CRITICAL flag and
  gains the two bonuses of 10, so \<open>contractSafety\<close> is 90, above 70.
\<close>

theorem unverified_bonus_counterexample:
  "verified unverifiedRenouncedLocked = False
   \<and> detectScam (Inr []) (\<lambda>s. None) 1700000001000 1700000002000 someProject
       unverifiedRenouncedLocked None None None =
     Inr \<lparr> overall = 65, contractSafety = 90, tokenomics = 50, teamCredibility = 50,
         communityHealth = 50, liquidityRisk = 80,
         redFlags = [\<lparr> severity = CRITICAL, category = CONTRACT,
              description = ''Contract source code is not verified'',
              evidence = Some ''Cannot analyze unverified contract code'' \<rparr>],
         warnings = [''[CRITICAL] Contract source code is not verified''],
         recommendation = AVOID, analysisTimestamp = 1700000002000 \<rparr>"
  by (simp add: eval_defs unverifiedRenouncedLocked_def honestToken_def)

text \<open>
  Claim C3, amended. When the source is absent or marked unverified,
  \<open>analyzeContract\<close> returns the analysis with \<open>verified\<close> and every capability
  boolean false and both taxes 0, whatever the detectors are (they are not run). Assessing
  any analysis with \<open>verified = false\<close> and no optional inputs returns a RiskScore with
  at least one CRITICAL flag and recommendation AVOID; its \<open>contractSafety\<close> is at most
  70 when \<open>ownershipRenounced\<close> and \<open>lpLocked\<close> are false, as they are in what
  \<open>analyzeContract\<close> returns for such a source.
\<close>

theorem unverified_source_floor:
  "(sourceUnavailable sourceInfo \<longrightarrow>
      analyzeContract rx sourceInfo creation =
        \<lparr> verified = False, isProxy = False, hasHoneypot = False, hasMintFunction = False,
          hasPauseFunction = False, hasBlacklist = False, hasWhitelist = False,
          buyTax = 0, sellTax = 0, ownershipRenounced = False, maxWalletLimit = None,
          maxTxLimit = None, lpLocked = False, lpLockDuration = None,
          creatorAddress = (case creation of None \<Rightarrow> ''Unknown''
                            | Some c \<Rightarrow> if creator c = [] then ''Unknown'' else creator c),
          creationTimestamp = (case creation of None \<Rightarrow> 0 | Some c \<Rightarrow> timestamp c) \<rparr>)
   \<and> (\<not> verified ca \<longrightarrow>
        (\<exists>r. detectScam (Inr patterns) pf n1 n2 pd ca None None None = Inr r
           \<and> (\<exists>f \<in> set (redFlags r). severity f = CRITICAL)
           \<and> recommendation r = AVOID
           \<and> (\<not> ownershipRenounced ca \<and> \<not> lpLocked ca \<longrightarrow> contractSafety r \<le> 70)))"
proof (intro conjI impI)
  assume "sourceUnavailable sourceInfo"
  then show "analyzeContract rx sourceInfo creation =
        \<lparr> verified = False, isProxy = False, hasHoneypot = False, hasMintFunction = False,
          hasPauseFunction = False, hasBlacklist = False, hasWhitelist = False,
          buyTax = 0, sellTax = 0, ownershipRenounced = False, maxWalletLimit = None,
          maxTxLimit = None, lpLocked = False, lpLockDuration = None,
          creatorAddress = (case creation of None \<Rightarrow> ''Unknown''
                            | Some c \<Rightarrow> if creator c = [] then ''Unknown'' else creator c),
          creationTimestamp = (case creation of None \<Rightarrow> 0 | Some c \<Rightarrow> timestamp c) \<rparr>"
    by (cases sourceInfo) (simp_all add: sourceUnavailable_def analyzeContract_def Let_def)
next
  assume nv: "\<not> verified ca"
  let ?u = "\<lparr> severity = CRITICAL, category = CONTRACT,
       description = ''Contract source code is not verified'',
       evidence = Some ''Cannot analyze unverified contract code'' \<rparr>"
  from unverified_flag_first [OF nv, of n1]
  obtain rest where g: "generateRedFlags ca n1 = ?u # rest" by blast
  let ?fl = "insertionOrder patterns pf n1 ca None None None"
  have fl: "?fl = ?u # (rest @ matchedFlags patterns ca)"
    by (simp add: insertionOrder_def g)
  have crit: "\<exists>f \<in> set ?fl. severity f = CRITICAL"
    unfolding fl by simp
  have cs: "\<not> ownershipRenounced ca \<and> \<not> lpLocked ca \<longrightarrow> calculateContractSafety ca ?fl \<le> 70"
    unfolding fl
    using contractSafety_unverified_le [OF nv, of ?u "rest @ matchedFlags patterns ca"]
    by auto
  have av: "determineRecommendation ov ?fl = AVOID" for ov
    using crit by (simp add: determineRecommendation_def list_ex_iff)
  show "\<exists>r. detectScam (Inr patterns) pf n1 n2 pd ca None None None = Inr r
           \<and> (\<exists>f \<in> set (redFlags r). severity f = CRITICAL)
           \<and> recommendation r = AVOID
           \<and> (\<not> ownershipRenounced ca \<and> \<not> lpLocked ca \<longrightarrow> contractSafety r \<le> 70)"
    using crit cs av by (simp add: detectScam_Inr Let_def severitySorted_def)
qed

text \<open>
  C3, amended, at an unverified source with known creation data and the default registry.
\<close>

theorem unverified_source_floor_witness:
  "sourceUnavailable None \<and> sourceUnavailable (Some unverifiedSource)
   \<and> analyzeContract stubDetectors (Some unverifiedSource) (Some someCreation) =
        \<lparr> verified = False, isProxy = False, hasHoneypot = False, hasMintFunction = False,
          hasPauseFunction = False, hasBlacklist = False, hasWhitelist = False,
          buyTax = 0, sellTax = 0, ownershipRenounced = False, maxWalletLimit = None,
          maxTxLimit = None, lpLocked = False, lpLockDuration = None,
          creatorAddress = ''0xc0ffee'', creationTimestamp = 1700000000 \<rparr>
   \<and> (\<exists>r. detectScam (Inr defaultPatterns) (\<lambda>s. None) 1700000001000 1700000002000
            someProject (analyzeContract stubDetectors (Some unverifiedSource)
              (Some someCreation)) None None None = Inr r
          \<and> (\<exists>f \<in> set (redFlags r). severity f = CRITICAL)
          \<and> recommendation r = AVOID \<and> contractSafety r \<le> 70)"
proof -
  have s: "sourceUnavailable None" "sourceUnavailable (Some unverifiedSource)"
    by (simp_all add: sourceUnavailable_def unverifiedSource_def)
  note t = unverified_source_floor [of "Some unverifiedSource" stubDetectors "Some someCreation"
      "analyzeContract stubDetectors (Some unverifiedSource) (Some someCreation)"
      defaultPatterns "\<lambda>s. None" 1700000001000 1700000002000 someProject]
  from t s have a: "analyzeContract stubDetectors (Some unverifiedSource) (Some someCreation) =
        \<lparr> verified = False, isProxy = False, hasHoneypot = False, hasMintFunction = False,
          hasPauseFunction = False, hasBlacklist = False, hasWhitelist = False,
          buyTax = 0, sellTax = 0, ownershipRenounced = False, maxWalletLimit = None,
          maxTxLimit = None, lpLocked = False, lpLockDuration = None,
          creatorAddress = ''0xc0ffee'', creationTimestamp = 1700000000 \<rparr>"
    by (simp add: someCreation_def)
  have v: "\<not> verified (analyzeContract stubDetectors (Some unverifiedSource) (Some someCreation))"
    "\<not> ownershipRenounced
        (analyzeContract stubDetectors (Some unverifiedSource) (Some someCreation))"
    "\<not> lpLocked (analyzeContract stubDetectors (Some unverifiedSource) (Some someCreation))"
    by (simp_all add: a)
  from t v have "\<exists>r. detectScam (Inr defaultPatterns) (\<lambda>s. None) 1700000001000 1700000002000
            someProject (analyzeContract stubDetectors (Some unverifiedSource)
              (Some someCreation)) None None None = Inr r
          \<and> (\<exists>f \<in> set (redFlags r). severity f = CRITICAL)
          \<and> recommendation r = AVOID \<and> contractSafety r \<le> 70"
    by blast
  with s a show ?thesis
    by blast
qed

section \<open>C4: determinism\<close>

text \<open>
  C4 as stated fails: the same inputs, assessed one second and again eight days after the
  creation of a token whose liquidity is not locked, give different flags, scores and time
  stamps.
\<close>

theorem clock_counterexample:
  "detectScam (Inr []) (\<lambda>s. None) 1700000001000 1700000002000 someProject
     youngUnlockedToken None None None =
   Inr \<lparr> overall = 63, contractSafety = 100, tokenomics = 50, teamCredibility = 50,
         communityHealth = 50, liquidityRisk = 30,
         redFlags = [\<lparr> severity = HIGH, category = LIQUIDITY,
              description = ''Liquidity not locked for new token'',
              evidence = Some ''LP tokens are not locked, rug pull risk'' \<rparr>],
         warnings = [''[HIGH] Liquidity not locked for new token''],
         recommendation = MODERATE_RISK, analysisTimestamp = 1700000002000 \<rparr>
   \<and> detectScam (Inr []) (\<lambda>s. None) 1700691201000 1700691202000 someProject
     youngUnlockedToken None None None =
   Inr \<lparr> overall = 65, contractSafety = 100, tokenomics = 50, teamCredibility = 50,
         communityHealth = 50, liquidityRisk = 50, redFlags = [], warnings = [],
         recommendation = MODERATE_RISK, analysisTimestamp = 1700691202000 \<rparr>"
  by (simp add: eval_defs youngUnlockedToken_def honestToken_def)

text \<open>
  Claim C4, amended. For fixed inputs and a fixed registry snapshot, two calls of
  \<open>detectScam\<close> at clock readings for which the liquidity age rule decides alike
  return results equal in every field other than \<open>analysisTimestamp\<close>, and
  \<open>analysisTimestamp\<close> is the clock reading at return.
\<close>

theorem detectScam_deterministic_up_to_clock:
  assumes "liquidityAgeRule ca n1 = liquidityAgeRule ca n2"
  shows "map_sum id withoutTimestamp (detectScam db pf n1 t1 pd ca tok team comm)
         = map_sum id withoutTimestamp (detectScam db pf n2 t2 pd ca tok team comm)
       \<and> (\<forall>r. detectScam db pf n1 t1 pd ca tok team comm = Inr r \<longrightarrow> analysisTimestamp r = t1)"
proof (cases db)
  case (Inl e)
  then show ?thesis by (simp add: detectScam_Inl)
next
  case (Inr ps)
  then show ?thesis
    using insertionOrder_clock [OF assms, of ps pf tok team comm]
    by (auto simp add: detectScam_Inr Let_def withoutTimestamp_def)
qed

text \<open>
  C4, amended, at two calls four seconds apart, both within the first week of the token.
\<close>

theorem detectScam_deterministic_up_to_clock_witness:
  "liquidityAgeRule youngUnlockedToken 1700000001000
   \<and> liquidityAgeRule youngUnlockedToken 1700000005000
   \<and> map_sum id withoutTimestamp
        (detectScam (Inr defaultPatterns) (\<lambda>s. None) 1700000001000 1700000002000
           someProject youngUnlockedToken None None None)
      = map_sum id withoutTimestamp
        (detectScam (Inr defaultPatterns) (\<lambda>s. None) 1700000005000 1700000006000
           someProject youngUnlockedToken None None None)
   \<and> map_sum id analysisTimestamp
        (detectScam (Inr defaultPatterns) (\<lambda>s. None) 1700000001000 1700000002000
           someProject youngUnlockedToken None None None) = Inr 1700000002000"
proof -
  have h: "liquidityAgeRule youngUnlockedToken 1700000001000
           = liquidityAgeRule youngUnlockedToken 1700000005000"
    by (simp add: liquidityAgeRule_def youngUnlockedToken_def honestToken_def)
  have a: "liquidityAgeRule youngUnlockedToken 1700000001000"
    "liquidityAgeRule youngUnlockedToken 1700000005000"
    by (simp_all add: liquidityAgeRule_def youngUnlockedToken_def honestToken_def)
  show ?thesis
    using a detectScam_deterministic_up_to_clock [OF h, of "Inr defaultPatterns" "\<lambda>s. None"
        1700000002000 someProject None None None 1700000006000]
    by (simp add: detectScam_Inr Let_def)
qed

section \<open>C5: registry failure\<close>

text \<open>
  C5 as stated fails: when the registry query rejects, \<open>detectScam\<close> rejects with the
  same error and returns no RiskScore.
\<close>

theorem registry_failure_counterexample:
  "detectScam (Inl (StorageUnavailable ''D1_ERROR: no such table: scam_patterns''))
     (\<lambda>s. None) 1700000001000 1700000002000 someProject honestToken None None None =
   Inl (StorageUnavailable ''D1_ERROR: no such table: scam_patterns'')"
  by (simp add: detectScam_Inl)

text \<open>
  Claim C5, amended. \<open>detectScam\<close> fails exactly when the registry lookup fails, and
  then with the error of the lookup; when the lookup succeeds with no patterns it returns
  a RiskScore whose flags are the contract, tokenomics, team and community flags alone.
\<close>

theorem registry_failure_propagates:
  "(detectScam db pf n1 n2 pd ca tok team comm = Inl e) = (db = Inl e)
   \<and> (\<exists>r. detectScam (Inr []) pf n1 n2 pd ca tok team comm = Inr r
          \<and> redFlags r = severitySorted
               (generateRedFlags ca n1
                @ (case tok of None \<Rightarrow> [] | Some t \<Rightarrow> checkTokenomicsRedFlags pf t)
                @ (case team of None \<Rightarrow> [] | Some t \<Rightarrow> checkTeamRedFlags t)
                @ (case comm of None \<Rightarrow> [] | Some c \<Rightarrow> checkCommunityRedFlags c)))"
  by (cases db)
    (auto simp add: detectScam_Inl detectScam_Inr Let_def insertionOrder_def matchedFlags_def)

section \<open>C6: the honest token\<close>

text \<open>
  C6 as stated fails: for the honest token the neutral defaults of 50 bring the overall
  score to 68, and the recommendation is MODERATE_RISK.
\<close>

theorem honest_token_counterexample:
  "detectScam (Inr []) (\<lambda>s. None) 1700000001000 1700000002000 someProject honestToken
     None None None =
   Inr \<lparr> overall = 68, contractSafety = 100, tokenomics = 50, teamCredibility = 50,
         communityHealth = 50, liquidityRisk = 80, redFlags = [], warnings = [],
         recommendation = MODERATE_RISK, analysisTimestamp = 1700000002000 \<rparr>"
  by (simp add: eval_defs honestToken_def)

text \<open>
  Claim C6, amended. For the honest-token input with tokenomics, team and community
  omitted and an empty registry, \<open>detectScam\<close> yields \<open>contractSafety = 100\<close>, no
  flags, \<open>overall = 68\<close> and the recommendation MODERATE_RISK.
\<close>

theorem honest_token_moderate_risk:
  assumes "verified ca" "\<not> isProxy ca" "\<not> hasMintFunction ca" "\<not> hasPauseFunction ca"
    "\<not> hasBlacklist ca" "buyTax ca = 0" "sellTax ca = 0" "ownershipRenounced ca"
    "lpLocked ca" "\<not> hasHoneypot ca"
  shows "detectScam (Inr []) pf n1 n2 pd ca None None None =
   Inr \<lparr> overall = 68, contractSafety = 100, tokenomics = 50, teamCredibility = 50,
         communityHealth = 50, liquidityRisk = 80, redFlags = [], warnings = [],
         recommendation = MODERATE_RISK, analysisTimestamp = n2 \<rparr>"
  using assms by (simp add: eval_defs)

text \<open>C6, amended, at the honest token of Scenario A.\<close>

theorem honest_token_moderate_risk_witness:
  "verified honestToken \<and> ownershipRenounced honestToken \<and> lpLocked honestToken
   \<and> detectScam (Inr []) (\<lambda>s. None) 1700000001000 1700000002000 otherProject honestToken
       None None None =
     Inr \<lparr> overall = 68, contractSafety = 100, tokenomics = 50, teamCredibility = 50,
           communityHealth = 50, liquidityRisk = 80, redFlags = [], warnings = [],
           recommendation = MODERATE_RISK, analysisTimestamp = 1700000002000 \<rparr>"
  using honest_token_moderate_risk [of honestToken "\<lambda>s. None" 1700000001000 1700000002000
      otherProject]
  by (simp add: honestToken_def)

section \<open>C7: registry pattern matching\<close>

text \<open>
  C7 as stated fails: the evidence of a pattern flag does not list the matched indicator
  names; for the pattern "Hidden mint function in proxy contract" on a mintable proxy
  with an active owner the names join to the second string, the engine writes the first.
\<close>

theorem pattern_evidence_counterexample:
  "matchScamPatterns (Inr [hiddenMintPattern]) someProject proxyMintToken =
     Inr [\<lparr> severity = CRITICAL, category = CONTRACT,
            description = ''Hidden mint function in proxy contract'',
            evidence = Some
              ''Is proxy contract, Has mint function, Ownership not renounced'' \<rparr>]
   \<and> join '', '' (filter (\<lambda>i. indicatorMatches i proxyMintToken) (indicators hiddenMintPattern))
     = ''is_proxy, has_mint, ownership_not_renounced''"
  by (simp add: matchScamPatterns_def checkPatternMatch_def hiddenMintPattern_def
      proxyMintToken_def honestToken_def indicatorMatches_def)

text \<open>
  Claim C7, amended. For every registry and every contract analysis, pattern matching
  emits, pattern by pattern in registry order, exactly one flag if at least one indicator
  of the pattern matches and none otherwise; the flag carries the severity, category and
  description of the pattern, and its evidence joins with ", " the engine's label of each
  matched indicator (for example "Is proxy contract" for \<open>is_proxy\<close>), in the order
  of the indicator list. An indicator name the engine does not know never matches, and
  removing such names from an indicator list does not change the matches.
\<close>

theorem pattern_flags_carry_labels:
  "matchScamPatterns (Inr patterns) pd ca =
     Inr (concat (map (\<lambda>p.
            if \<exists>i \<in> set (indicators p). indicatorMatches i ca then
              [\<lparr> severity = p_severity p, category = pattern_type p,
                 description = p_description p,
                 evidence = Some (join '', ''
                   (map indicatorLabel
                      (filter (\<lambda>i. indicatorMatches i ca) (indicators p)))) \<rparr>]
            else []) patterns))
   \<and> (\<forall>i. \<not> recognizedIndicator i \<longrightarrow> \<not> indicatorMatches i ca)
   \<and> checkPatternMatch (filter recognizedIndicator inds) ca = checkPatternMatch inds ca"
proof (intro conjI)
  have "(length (checkPatternMatch inds' ca) > 0) = (\<exists>i \<in> set inds'. indicatorMatches i ca)"
    for inds'
    by (simp add: checkPatternMatch_labels filter_empty_conv)
  then show "matchScamPatterns (Inr patterns) pd ca =
     Inr (concat (map (\<lambda>p.
            if \<exists>i \<in> set (indicators p). indicatorMatches i ca then
              [\<lparr> severity = p_severity p, category = pattern_type p,
                 description = p_description p,
                 evidence = Some (join '', ''
                   (map indicatorLabel
                      (filter (\<lambda>i. indicatorMatches i ca) (indicators p)))) \<rparr>]
            else []) patterns))"
    by (simp add: matchScamPatterns_def Let_def checkPatternMatch_labels cong: if_cong)
  show "\<forall>i. \<not> recognizedIndicator i \<longrightarrow> \<not> indicatorMatches i ca"
    by (auto simp add: recognizedIndicator_def indicatorMatches_def)
  then have "filter (\<lambda>i. indicatorMatches i ca) (filter recognizedIndicator inds)
             = filter (\<lambda>i. indicatorMatches i ca) inds"
    by (auto intro: filter_cong)
  then show "checkPatternMatch (filter recognizedIndicator inds) ca = checkPatternMatch inds ca"
    by (simp add: checkPatternMatch_labels)
qed

text \<open>C7, amended, at the default registry and a mintable token with an active owner.\<close>

theorem pattern_flags_carry_labels_witness:
  "(\<exists>i \<in> set (indicators hiddenMintPattern). indicatorMatches i mintableToken)
   \<and> \<not> recognizedIndicator ''no_sell_function''
   \<and> \<not> indicatorMatches ''no_sell_function'' mintableToken
   \<and> matchScamPatterns (Inr defaultPatterns) someProject mintableToken =
       Inr [\<lparr> severity = CRITICAL, category = CONTRACT,
              description = ''Hidden mint function in proxy contract'',
              evidence = Some ''Has mint function, Ownership not renounced'' \<rparr>,
            \<lparr> severity = HIGH, category = TOKENOMICS,
              description = ''Unlocked liquidity with high market cap'',
              evidence = Some ''LP not locked'' \<rparr>]
   \<and> checkPatternMatch [''no_sell_function'', ''has_mint'', ''has_mint''] mintableToken
       = checkPatternMatch [''has_mint'', ''has_mint''] mintableToken"
  using pattern_flags_carry_labels [of defaultPatterns someProject mintableToken
      "[''no_sell_function'', ''has_mint'', ''has_mint'']"]
  by (simp add: defaultPatterns_def hiddenMintPattern_def mintableToken_def honestToken_def
      indicatorMatches_def recognizedIndicator_def indicatorLabel_def)

section \<open>C8: order of the returned red flags\<close>

text \<open>
  Claim C8 at a failing input. For a verified, mintable token with an active owner and the
  default registry the rules fire in the order HIGH, CRITICAL, HIGH, but the
  \<open>redFlags\<close> of the returned RiskScore are in the order CRITICAL, HIGH, HIGH:
  \<open>generateWarnings\<close> has sorted the array itself.
\<close>

theorem redFlags_reordered_by_generateWarnings:
  "map severity (insertionOrder defaultPatterns (\<lambda>s. None) 1700000001000 mintableToken
      None None None) = [HIGH, CRITICAL, HIGH]
   \<and> map_sum id (\<lambda>r. map severity (redFlags r))
        (detectScam (Inr defaultPatterns) (\<lambda>s. None) 1700000001000 1700000002000
           someProject mintableToken None None None) = Inr [CRITICAL, HIGH, HIGH]"
  by (simp add: eval_defs mintableToken_def honestToken_def defaultPatterns_def)

section \<open>C9: monotonicity\<close>

text \<open>
  Claim C9. Appending one more red flag, of any severity and category, to the collected
  flags never increases a sub-score: not \<open>contractSafety\<close>, \<open>tokenomics\<close>,
  \<open>teamCredibility\<close>, \<open>communityHealth\<close> or \<open>liquidityRisk\<close>, hence in particular
  not the one its category maps to.
\<close>

theorem extra_flag_never_raises_score:
  "calculateContractSafety ca (flags @ [f]) \<le> calculateContractSafety ca flags
   \<and> calculateTokenomicsScore tok (flags @ [f]) \<le> calculateTokenomicsScore tok flags
   \<and> calculateTeamScore team (flags @ [f]) \<le> calculateTeamScore team flags
   \<and> calculateCommunityScore comm (flags @ [f]) \<le> calculateCommunityScore comm flags
   \<and> calculateLiquidityRisk ca (flags @ [f]) \<le> calculateLiquidityRisk ca flags"
proof (intro conjI)
  show "calculateContractSafety ca (flags @ [f]) \<le> calculateContractSafety ca flags"
  proof -
    let ?step = "\<lambda>(score::int) flag.
                   case severity flag of
                     CRITICAL \<Rightarrow> score - 30
                   | HIGH \<Rightarrow> score - 20
                   | MEDIUM \<Rightarrow> score - 10
                   | LOW \<Rightarrow> score - 5"
    define a where "a = foldl ?step 100 (filter (\<lambda>f. category f = CONTRACT) flags)"
    define a' where "a' = foldl ?step 100 (filter (\<lambda>f. category f = CONTRACT) (flags @ [f]))"
    have "a' \<le> a"
      unfolding a_def a'_def by (rule foldl_filter_snoc_le) (simp split: Severity.split)
    then show ?thesis
      unfolding calculateContractSafety_def Let_def a_def [symmetric] a'_def [symmetric]
      by auto
  qed
  show "calculateTokenomicsScore tok (flags @ [f]) \<le> calculateTokenomicsScore tok flags"
    unfolding calculateTokenomicsScore_def Let_def
    by (intro clamp_mono foldl_filter_snoc_le) (simp split: Severity.split)
  show "calculateTeamScore team (flags @ [f]) \<le> calculateTeamScore team flags"
    unfolding calculateTeamScore_def Let_def
    by (intro clamp_mono foldl_filter_snoc_le) (simp split: Severity.split)
  show "calculateCommunityScore comm (flags @ [f]) \<le> calculateCommunityScore comm flags"
    unfolding calculateCommunityScore_def Let_def
    by (intro clamp_mono foldl_filter_snoc_le) (simp split: Severity.split)
  show "calculateLiquidityRisk ca (flags @ [f]) \<le> calculateLiquidityRisk ca flags"
    unfolding calculateLiquidityRisk_def Let_def
    by (intro clamp_mono foldl_filter_snoc_le) (simp split: Severity.split)
qed

section \<open>C10: independence of the project identity\<close>

text \<open>
  C10 as stated fails: the claim fixes the analysis, the optional inputs and the registry
  but not the time of the call. Two projects with the same analysis of a token whose
  liquidity is not locked, one assessed one second and the other eight days after the
  creation of the token, differ in flags, \<open>liquidityRisk\<close> and \<open>overall\<close>, not
  only in \<open>analysisTimestamp\<close>.
\<close>

theorem projectData_clock_counterexample:
  "detectScam (Inr []) (\<lambda>s. None) 1700000001000 1700000002000 someProject
     youngUnlockedToken None None None =
   Inr \<lparr> overall = 63, contractSafety = 100, tokenomics = 50, teamCredibility = 50,
         communityHealth = 50, liquidityRisk = 30,
         redFlags = [\<lparr> severity = HIGH, category = LIQUIDITY,
              description = ''Liquidity not locked for new token'',
              evidence = Some ''LP tokens are not locked, rug pull risk'' \<rparr>],
         warnings = [''[HIGH] Liquidity not locked for new token''],
         recommendation = MODERATE_RISK, analysisTimestamp = 1700000002000 \<rparr>
   \<and> detectScam (Inr []) (\<lambda>s. None) 1700691201000 1700691202000 otherProject
     youngUnlockedToken None None None =
   Inr \<lparr> overall = 65, contractSafety = 100, tokenomics = 50, teamCredibility = 50,
         communityHealth = 50, liquidityRisk = 50, redFlags = [], warnings = [],
         recommendation = MODERATE_RISK, analysisTimestamp = 1700691202000 \<rparr>"
  by (simp add: eval_defs youngUnlockedToken_def honestToken_def)

text \<open>
  Claim C10, amended. Pattern matching never reads the ProjectData argument, and
  \<open>detectScam\<close> does not depend on it: for any two ProjectData values, otherwise
  identical analysis, optional inputs and registry outcome, and any two calls at clock
  readings for which the liquidity age rule decides alike, the two results agree in every
  field except possibly \<open>analysisTimestamp\<close>.
\<close>

theorem detectScam_ignores_projectData:
  assumes "liquidityAgeRule ca n1 = liquidityAgeRule ca n2"
  shows "matchScamPatterns db pd1 ca = matchScamPatterns db pd2 ca
   \<and> map_sum id withoutTimestamp (detectScam db pf n1 t1 pd1 ca tok team comm)
     = map_sum id withoutTimestamp (detectScam db pf n2 t2 pd2 ca tok team comm)"
proof (cases db)
  case (Inl e)
  then show ?thesis
    by (simp add: detectScam_Inl matchScamPatterns_Inl)
next
  case (Inr ps)
  then show ?thesis
    using insertionOrder_clock [OF assms, of ps pf tok team comm]
    by (simp add: detectScam_Inr matchScamPatterns_Inr Let_def withoutTimestamp_def)
qed

text \<open>
  C10, amended, at two different projects assessed four seconds apart, both within the
  first week of the token, against the default registry.
\<close>

theorem detectScam_ignores_projectData_witness:
  "liquidityAgeRule youngUnlockedToken 1700000001000
   \<and> liquidityAgeRule youngUnlockedToken 1700000005000
   \<and> someProject \<noteq> otherProject
   \<and> matchScamPatterns (Inr defaultPatterns) someProject youngUnlockedToken
     = matchScamPatterns (Inr defaultPatterns) otherProject youngUnlockedToken
   \<and> map_sum id withoutTimestamp
        (detectScam (Inr defaultPatterns) (\<lambda>s. None) 1700000001000 1700000002000
           someProject youngUnlockedToken None None None)
      = map_sum id withoutTimestamp
        (detectScam (Inr defaultPatterns) (\<lambda>s. None) 1700000005000 1700000006000
           otherProject youngUnlockedToken None None None)"
proof -
  have a: "liquidityAgeRule youngUnlockedToken 1700000001000"
    "liquidityAgeRule youngUnlockedToken 1700000005000"
    by (simp_all add: liquidityAgeRule_def youngUnlockedToken_def honestToken_def)
  then have h: "liquidityAgeRule youngUnlockedToken 1700000001000
                = liquidityAgeRule youngUnlockedToken 1700000005000"
    by simp
  have d: "someProject \<noteq> otherProject"
    by (simp add: someProject_def otherProject_def)
  show ?thesis
    using a d detectScam_ignores_projectData [OF h, of "Inr defaultPatterns" someProject
        otherProject "\<lambda>s. None" 1700000002000 None None None 1700000006000]
    by blast
qed

end
